theory Spec2Isabelle
  imports Main
begin

section \<open>Values shared by the package and the libraries it calls\<close>

text \<open>
  The package \<^verbatim>\<open>httputils\<close> is glue around \<^verbatim>\<open>net/http\<close>, \<^verbatim>\<open>gorilla/mux\<close>,
  \<^verbatim>\<open>gorilla/handlers\<close>, \<^verbatim>\<open>prometheus\<close>, \<^verbatim>\<open>logrus\<close> and \<^verbatim>\<open>context\<close>. Its own
  functions (\<^verbatim>\<open>ok.go\<close> and the timer file) are translated line by line. The library calls they make are given by small executable definitions that follow
  the libraries' documented behaviour; each says which library function it stands for.

  Time is a logical clock counted in nanoseconds, the unit of \<^verbatim>\<open>time.Duration\<close>.
  Blocking on a channel moves the clock to the instant the channel becomes ready.
\<close>

type_synonym Time = int
type_synonym Duration = int

definition Second :: Duration where
  "Second = 1000000000"

datatype go_error =
    ErrServerClosed
  | DeadlineExceeded
  | Canceled
  | OtherError string

fun Error :: "go_error \<Rightarrow> string" where
  "Error ErrServerClosed = ''http: Server closed''"
| "Error DeadlineExceeded = ''context deadline exceeded''"
| "Error Canceled = ''context canceled''"
| "Error (OtherError s) = s"

text \<open>A panic carries its value; a nil pointer dereference is the runtime's own panic.\<close>

datatype panic = NilDereference | PanicValue string

subsection \<open>logrus\<close>

text \<open>
  A \<^verbatim>\<open>logrus.FieldLogger\<close> is named by a string; what it prints is appended to the log
  of the world. \<^verbatim>\<open>Fatalf\<close> prints and then exits the process (see \<open>thread\<close> below);
  \<^verbatim>\<open>Println\<close> prints at info level. The logger handed to the package is a logger of
  logrus (not nil) with the library's exit function.
\<close>

type_synonym FieldLogger = string

datatype Level = DebugLevel | InfoLevel | FatalLevel

record world =
  now :: Time
  logs :: "(FieldLogger \<times> Level \<times> string) list"
  httpDuration :: "string \<rightharpoonup> Duration list"

definition log_entry :: "FieldLogger \<Rightarrow> Level \<Rightarrow> string \<Rightarrow> world \<Rightarrow> world" where
  "log_entry l lv msg w = w\<lparr>logs := logs w @ [(l, lv, msg)]\<rparr>"

definition Debugf :: "FieldLogger \<Rightarrow> string \<Rightarrow> world \<Rightarrow> world" where
  "Debugf l msg = log_entry l DebugLevel msg"

definition Info :: "FieldLogger \<Rightarrow> string \<Rightarrow> world \<Rightarrow> world" where
  "Info l msg = log_entry l InfoLevel msg"

definition Infof :: "FieldLogger \<Rightarrow> string \<Rightarrow> world \<Rightarrow> world" where
  "Infof l msg = log_entry l InfoLevel msg"

definition Println :: "FieldLogger \<Rightarrow> string \<Rightarrow> world \<Rightarrow> world" where
  "Println l msg = log_entry l InfoLevel msg"

definition Fatalf :: "FieldLogger \<Rightarrow> string \<Rightarrow> world \<Rightarrow> world" where
  "Fatalf l msg = log_entry l FatalLevel msg"

subsection \<open>net/http: the response writer\<close>

text \<open>
  The server's \<^verbatim>\<open>http.ResponseWriter\<close>: the status line (\<open>None\<close> until the header is
  written), the body written so far, and the error every \<^verbatim>\<open>Write\<close> meets when the
  connection is broken. The first successful \<^verbatim>\<open>Write\<close> sends status 200 when no header
  was written before; \<^verbatim>\<open>WriteHeader\<close> after the header is superfluous and changes nothing.
\<close>

record ResponseWriter =
  rw_status :: "nat option"
  rw_body :: string
  rw_broken :: "go_error option"

definition WriteHeader :: "nat \<Rightarrow> ResponseWriter \<Rightarrow> ResponseWriter" where
  "WriteHeader code rw = (if rw_status rw = None then rw\<lparr>rw_status := Some code\<rparr> else rw)"

definition Write :: "string \<Rightarrow> ResponseWriter \<Rightarrow> (nat \<times> go_error option) \<times> ResponseWriter" where
  "Write bs rw =
     (case rw_broken rw of
        Some e \<Rightarrow> ((0, Some e), rw)
      | None \<Rightarrow> ((length bs, None), (WriteHeader 200 rw)\<lparr>rw_body := rw_body rw @ bs\<rparr>))"

text \<open>\<^verbatim>\<open>fmt.Fprintf(rw, s)\<close> with a format that has no verbs writes \<open>s\<close>.\<close>

definition Fprintf :: "ResponseWriter \<Rightarrow> string \<Rightarrow> (nat \<times> go_error option) \<times> ResponseWriter" where
  "Fprintf rw s = Write s rw"

definition StatusOK :: nat where "StatusOK = 200"
definition StatusMovedPermanently :: nat where "StatusMovedPermanently = 301"
definition StatusNotFound :: nat where "StatusNotFound = 404"
definition StatusInternalServerError :: nat where "StatusInternalServerError = 500"

subsection \<open>gorilla/mux: routes and the request context\<close>

text \<open>
  A \<^verbatim>\<open>*mux.Route\<close> as the package builds it: the error stored while building
  (\<^verbatim>\<open>r.err\<close>) and the path matcher (\<^verbatim>\<open>r.regexp.path\<close>, nil for a route without a
  path). Path templates are literal strings here: \<^verbatim>\<open>regexpTypePath\<close> matches the whole
  path, \<^verbatim>\<open>regexpTypePrefix\<close> a prefix of it. mux's variables (\<^verbatim>\<open>{name}\<close>) are compiled
  to regular expressions by the library and lie outside this model.
\<close>

datatype regexpType = regexpTypePath | regexpTypePrefix

record routeRegexp =
  template :: string
  regexp_typ :: regexpType

record Route =
  route_err :: "go_error option"
  regexp_path :: "routeRegexp option"

text \<open>
  A request: method, URL path, and the route mux stored in the request context when it
  matched one (\<open>None\<close>: the context holds no route).
\<close>

record Request =
  Method :: string
  URL_Path :: string
  ctx_route :: "Route option"

text \<open>\<^verbatim>\<open>mux.CurrentRoute\<close> returns the route of the context, or nil.\<close>

definition CurrentRoute :: "Request \<Rightarrow> Route option" where
  "CurrentRoute r = ctx_route r"

text \<open>
  \<^verbatim>\<open>(*Route).GetPathTemplate\<close> reads \<^verbatim>\<open>r.err\<close> first, so a nil receiver is a nil
  pointer dereference. Otherwise it returns the stored error, or the error
  "route doesn't have a path", or the template.
\<close>

definition GetPathTemplate :: "Route option \<Rightarrow> panic + (string \<times> go_error option)" where
  "GetPathTemplate p =
     (case p of
        None \<Rightarrow> Inl NilDereference
      | Some rt \<Rightarrow>
          (case route_err rt of
             Some e \<Rightarrow> Inr ('''', Some e)
           | None \<Rightarrow>
               (case regexp_path rt of
                  None \<Rightarrow> Inr ('''', Some (OtherError ''mux: route doesn't have a path''))
                | Some rx \<Rightarrow> Inr (template rx, None))))"

definition requestWithRoute :: "Request \<Rightarrow> Route \<Rightarrow> Request" where
  "requestWithRoute r rt = r\<lparr>ctx_route := Some rt\<rparr>"

subsection \<open>prometheus: the histogram vector and its timer\<close>

text \<open>
  \<^verbatim>\<open>httpDuration\<close> is the package's \<^verbatim>\<open>HistogramVec\<close> with the one label \<^verbatim>\<open>path\<close>: for
  every label value that was asked for, the durations observed under it.
  \<^verbatim>\<open>WithLabelValues\<close> gets the child of a label value and creates it, empty, when it is
  asked for the first time. \<^verbatim>\<open>prometheus.NewTimer\<close> notes the instant it is made;
  \<^verbatim>\<open>ObserveDuration\<close> observes the time since then. Durations are kept in nanoseconds
  (the library converts them to seconds as floating point). Label values are taken to be
  valid UTF-8, as \<^verbatim>\<open>WithLabelValues\<close> requires.
\<close>

definition observations :: "world \<Rightarrow> string \<Rightarrow> Duration list" where
  "observations w l = (case httpDuration w l of None \<Rightarrow> [] | Some ds \<Rightarrow> ds)"

definition WithLabelValues :: "string \<Rightarrow> world \<Rightarrow> world" where
  "WithLabelValues l w =
     (case httpDuration w l of
        None \<Rightarrow> w\<lparr>httpDuration := (httpDuration w)(l \<mapsto> [])\<rparr>
      | Some ds \<Rightarrow> w)"

record prometheus_Timer =
  observer :: string
  begin_at :: Time

definition prometheus_NewTimer :: "string \<Rightarrow> world \<Rightarrow> prometheus_Timer" where
  "prometheus_NewTimer l w = \<lparr>observer = l, begin_at = now w\<rparr>"

definition ObserveDuration :: "prometheus_Timer \<Rightarrow> world \<Rightarrow> world" where
  "ObserveDuration t w =
     w\<lparr>httpDuration := (httpDuration w)(observer t \<mapsto> observations w (observer t) @ [now w - begin_at t])\<rparr>"

subsection \<open>path.Clean and mux's cleanPath\<close>

text \<open>
  \<^verbatim>\<open>path.Clean\<close> of the Go library: the loop over the input, with the output buffer
  \<open>out\<close> and the index \<open>dotdot\<close> below which \<^verbatim>\<open>..\<close> cannot backtrack.
  \<open>backtrack\<close> is the inner loop that drops the last path element.
\<close>

function backtrack :: "nat \<Rightarrow> string \<Rightarrow> nat \<Rightarrow> nat" where
  "backtrack dotdot buf w =
     (if w > dotdot \<and> buf ! w \<noteq> CHR ''/'' then backtrack dotdot buf (w - 1) else w)"
  by pat_completeness auto
termination
  by (relation "measure (\<lambda>(dotdot, buf, w). w)") auto

declare backtrack.simps [simp del]

function Clean_loop :: "bool \<Rightarrow> nat \<Rightarrow> string \<Rightarrow> string \<Rightarrow> string" where
  "Clean_loop rooted dotdot out [] = out"
| "Clean_loop rooted dotdot out (c # cs) =
     (if c = CHR ''/'' then Clean_loop rooted dotdot out cs
      else if c = CHR ''.'' \<and> (case cs of [] \<Rightarrow> True | d # ds \<Rightarrow> d = CHR ''/'')
        then Clean_loop rooted dotdot out cs
      else if c = CHR ''.'' \<and>
              (case cs of [] \<Rightarrow> False
               | d # ds \<Rightarrow> d = CHR ''.'' \<and> (case ds of [] \<Rightarrow> True | e # es \<Rightarrow> e = CHR ''/''))
        then
          (if length out > dotdot
             then Clean_loop rooted dotdot (take (backtrack dotdot out (length out - 1)) out) (tl cs)
           else if \<not> rooted
             then Clean_loop rooted
                    (length ((if length out > 0 then out @ ''/'' else out) @ ''..''))
                    ((if length out > 0 then out @ ''/'' else out) @ ''..'') (tl cs)
           else Clean_loop rooted dotdot out (tl cs))
      else Clean_loop rooted dotdot
             ((if rooted \<and> length out \<noteq> 1 \<or> \<not> rooted \<and> length out \<noteq> 0 then out @ ''/'' else out)
                @ c # takeWhile (\<lambda>x. x \<noteq> CHR ''/'') cs)
             (dropWhile (\<lambda>x. x \<noteq> CHR ''/'') cs))"
  by pat_completeness auto
termination
  by (relation "measure (\<lambda>(rooted, dotdot, out, p). length p)")
     (auto simp: length_dropWhile_le less_Suc_eq_le)

definition Clean :: "string \<Rightarrow> string" where
  "Clean p =
     (if p = [] then ''.''
      else let out = (if hd p = CHR ''/'' then Clean_loop True 1 ''/'' (tl p)
                      else Clean_loop False 0 [] p)
           in if out = [] then ''.'' else out)"

definition cleanPath :: "string \<Rightarrow> string" where
  "cleanPath p =
     (if p = [] then ''/''
      else let q = (if hd p \<noteq> CHR ''/'' then CHR ''/'' # p else p);
               np = Clean q
           in if last q = CHR ''/'' \<and> np \<noteq> ''/'' then np @ ''/'' else np)"

subsection \<open>gorilla/mux: matching\<close>

text \<open>
  A route with a stored error never matches; a route without a path matcher matches
  every request. The router takes the first route that matches, in the order of
  registration.
\<close>

definition routeRegexp_Match :: "routeRegexp \<Rightarrow> Request \<Rightarrow> bool" where
  "routeRegexp_Match rx r =
     (case regexp_typ rx of
        regexpTypePath \<Rightarrow> URL_Path r = template rx
      | regexpTypePrefix \<Rightarrow> take (length (template rx)) (URL_Path r) = template rx)"

definition Route_Match :: "Route \<Rightarrow> Request \<Rightarrow> bool" where
  "Route_Match rt r =
     (route_err rt = None \<and>
      (case regexp_path rt of None \<Rightarrow> True | Some rx \<Rightarrow> routeRegexp_Match rx r))"

fun Router_Match :: "(Route \<times> 'h) list \<Rightarrow> Request \<Rightarrow> (Route \<times> 'h) option" where
  "Router_Match [] r = None"
| "Router_Match ((rt, h) # rs) r = (if Route_Match rt r then Some (rt, h) else Router_Match rs r)"

section \<open>Handlers\<close>

text \<open>
  What running a handler function of the application does, as far as the package can
  see it: what it leaves in the response writer, how long it runs, and whether it
  panics.
\<close>

record app_result =
  app_rw :: ResponseWriter
  app_elapsed :: nat
  app_panic :: "string option"

text \<open>
  The values of the interface \<^verbatim>\<open>http.Handler\<close> that occur: a function of the
  application (\<^verbatim>\<open>http.HandlerFunc\<close>), the package's \<^verbatim>\<open>*OkHandler\<close> and \<^verbatim>\<open>*Timer\<close> with
  their fields, a \<^verbatim>\<open>*mux.Router\<close> with its routes (each route with its handler, nil
  when none was stored), and the \<^verbatim>\<open>recoveryHandler\<close> of gorilla/handlers with its
  handler, logger and \<^verbatim>\<open>printStack\<close> option.
\<close>

datatype http_Handler =
    HandlerFunc "ResponseWriter \<Rightarrow> Request \<Rightarrow> app_result"
  | OkHandler FieldLogger
  | Timer http_Handler FieldLogger
  | Router "(Route \<times> http_Handler option) list"
  | recoveryHandler http_Handler "FieldLogger option" bool

datatype outcome =
    Return ResponseWriter world
  | Panic panic ResponseWriter world

text \<open>\<^verbatim>\<open>NewOkHandler\<close> (ok.go, lines 18-22) and \<^verbatim>\<open>NewTimer\<close> (timer file, lines 28-33).\<close>

definition NewOkHandler :: "FieldLogger \<Rightarrow> http_Handler" where
  "NewOkHandler lg = OkHandler lg"

definition NewTimer :: "FieldLogger \<Rightarrow> http_Handler \<Rightarrow> http_Handler" where
  "NewTimer lg handler = Timer handler lg"

text \<open>\<^verbatim>\<open>http.NotFoundHandler\<close>: status 404 and the fixed text.\<close>

definition NotFound :: "ResponseWriter \<Rightarrow> ResponseWriter" where
  "NotFound rw = snd (Write ''404 page not found\<newline>'' (WriteHeader StatusNotFound rw))"

fun panic_text :: "panic \<Rightarrow> string" where
  "panic_text NilDereference = ''runtime error: invalid memory address or nil pointer dereference''"
| "panic_text (PanicValue v) = v"

text \<open>
  What the deferred function of \<^verbatim>\<open>recoveryHandler.ServeHTTP\<close> does with a recovered
  panic: status 500, then the panic value and (with \<^verbatim>\<open>printStack\<close>) the stack are
  printed to the recovery logger, or to the standard logger when none was given.
\<close>

definition recovery_log :: "FieldLogger option \<Rightarrow> bool \<Rightarrow> panic \<Rightarrow> world \<Rightarrow> world" where
  "recovery_log lg printStack p w =
     (let l = (case lg of None \<Rightarrow> ''log'' | Some x \<Rightarrow> x);
          w1 = Println l (panic_text p) w
      in if printStack then Println l ''debug.Stack()'' w1 else w1)"

text \<open>
  \<^verbatim>\<open>ServeHTTP\<close> of each handler.
  \<^item> \<^verbatim>\<open>http.HandlerFunc\<close>: the function runs, the clock moves by its running time.
  \<^item> \<^verbatim>\<open>OkHandler.ServeHTTP\<close> (ok.go, lines 25-29).
  \<^item> \<^verbatim>\<open>Timer.ServeHTTP\<close> (timer file, lines 36-44): the observation is not deferred, so
    a panic of the nested handler leaves the function before \<^verbatim>\<open>ObserveDuration\<close>.
  \<^item> \<^verbatim>\<open>mux.Router.ServeHTTP\<close>: a path that is not clean is redirected; the first
    matching route's handler serves the request, with the route in the context; without
    a handler the answer is 404.
  \<^item> \<^verbatim>\<open>recoveryHandler.ServeHTTP\<close>: a panic of the nested handler is recovered.
\<close>

function ServeHTTP :: "http_Handler \<Rightarrow> ResponseWriter \<Rightarrow> Request \<Rightarrow> world \<Rightarrow> outcome" where
  "ServeHTTP (HandlerFunc f) rw r w =
     (let a = f rw r;
          w' = w\<lparr>now := now w + int (app_elapsed a)\<rparr>
      in case app_panic a of
           None \<Rightarrow> Return (app_rw a) w'
         | Some v \<Rightarrow> Panic (PanicValue v) (app_rw a) w')"
| "ServeHTTP (OkHandler lg) rw r w =
     (case Fprintf rw ''ok'' of
        ((n, None), rw') \<Rightarrow> Return rw' w
      | ((n, Some e), rw') \<Rightarrow> Return rw' (Debugf lg (''failed to write ok response: '' @ Error e) w))"
| "ServeHTTP (Timer handler lg) rw r w =
     (case GetPathTemplate (CurrentRoute r) of
        Inl p \<Rightarrow> Panic p rw w
      | Inr (path, e) \<Rightarrow>
          (case ServeHTTP handler rw r (WithLabelValues path w) of
             Panic p rw' w' \<Rightarrow> Panic p rw' w'
           | Return rw' w' \<Rightarrow>
               Return rw' (ObserveDuration (prometheus_NewTimer path (WithLabelValues path w)) w')))"
| "ServeHTTP (Router routes) rw r w =
     (if cleanPath (URL_Path r) \<noteq> URL_Path r
        then Return (WriteHeader StatusMovedPermanently rw) w
      else
        (case Router_Match routes r of
           None \<Rightarrow> Return (NotFound rw) w
         | Some (rt, None) \<Rightarrow> Return (NotFound rw) w
         | Some (rt, Some handler) \<Rightarrow> ServeHTTP handler rw (requestWithRoute r rt) w))"
| "ServeHTTP (recoveryHandler handler lg printStack) rw r w =
     (case ServeHTTP handler rw r w of
        Return rw' w' \<Rightarrow> Return rw' w'
      | Panic p rw' w' \<Rightarrow>
          Return (WriteHeader StatusInternalServerError rw') (recovery_log lg printStack p w'))"
  by pat_completeness auto
termination
proof (relation "measure (\<lambda>(h, rw, r, w). size h)", goal_cases)
  case 1
  show ?case by simp
next
  case 2
  show ?case by simp
next
  case (3 routes rw r w m rt g handler)
  have mem: "(a, b) \<in> set rs" if "Router_Match rs r = Some (a, b)"
    for rs :: "(Route \<times> http_Handler option) list" and a b
    using that by (induction rs) (auto split: if_splits)
  have smaller: "size x < Suc (size_list (size_prod (\<lambda>x. 0) (size_option size)) rs)"
    if "(a, Some x) \<in> set rs" for rs :: "(Route \<times> http_Handler option) list" and a x
    using that by (induction rs) auto
  from 3 have "Router_Match routes r = Some (rt, Some handler)"
    by simp
  then have "size handler < Suc (size_list (size_prod (\<lambda>x. 0) (size_option size)) routes)"
    by (rule smaller [OF mem])
  then show ?case by simp
next
  case 4
  show ?case by simp
qed

subsection \<open>gorilla/mux: building routes\<close>

text \<open>
  The router's routes in the order of registration. A \<^verbatim>\<open>*mux.Route\<close> handed back to
  the caller is the position of the route in this list.
  \<^verbatim>\<open>Path\<close> and \<^verbatim>\<open>PathPrefix\<close> go through \<^verbatim>\<open>addRegexpMatcher\<close>: a template that is not
  empty and does not start with a slash is stored as the route's error.
  \<^verbatim>\<open>Route.Handler\<close> stores the handler unless the route has an error.
\<close>

type_synonym mux_Router = "(Route \<times> http_Handler option) list"

definition NewRouter :: mux_Router where
  "NewRouter = []"

definition NewRoute :: Route where
  "NewRoute = \<lparr>route_err = None, regexp_path = None\<rparr>"

definition TrimRight :: "string \<Rightarrow> char \<Rightarrow> string" where
  "TrimRight s c = rev (dropWhile (\<lambda>x. x = c) (rev s))"

definition addRegexpMatcher :: "Route \<Rightarrow> string \<Rightarrow> regexpType \<Rightarrow> Route" where
  "addRegexpMatcher rt tpl typ =
     (if route_err rt \<noteq> None then rt
      else if length tpl > 0 \<and> hd tpl \<noteq> CHR ''/''
        then rt\<lparr>route_err := Some (OtherError (''mux: path must start with a slash, got '' @ tpl))\<rparr>
      else rt\<lparr>regexp_path :=
                Some \<lparr>template = (case regexp_path rt of
                                    None \<Rightarrow> tpl
                                  | Some rx \<Rightarrow> TrimRight (template rx) (CHR ''/'') @ tpl),
                      regexp_typ = typ\<rparr>\<rparr>)"

definition Route_Path :: "string \<Rightarrow> Route \<Rightarrow> Route" where
  "Route_Path tpl rt = addRegexpMatcher rt tpl regexpTypePath"

definition Route_PathPrefix :: "string \<Rightarrow> Route \<Rightarrow> Route" where
  "Route_PathPrefix tpl rt = addRegexpMatcher rt tpl regexpTypePrefix"

definition Route_Handler :: "http_Handler \<Rightarrow> Route \<times> http_Handler option \<Rightarrow> Route \<times> http_Handler option" where
  "Route_Handler handler e = (if route_err (fst e) = None then (fst e, Some handler) else e)"

text \<open>\<^verbatim>\<open>Router.Handle(path, handler)\<close> is \<^verbatim>\<open>r.NewRoute().Path(path).Handler(handler)\<close>.\<close>

definition Router_Handle :: "mux_Router \<Rightarrow> string \<Rightarrow> http_Handler \<Rightarrow> nat \<times> mux_Router" where
  "Router_Handle rs path handler =
     (length rs, rs @ [Route_Handler handler (Route_Path path NewRoute, None)])"

text \<open>\<^verbatim>\<open>Router.PathPrefix(tpl)\<close> is \<^verbatim>\<open>r.NewRoute().PathPrefix(tpl)\<close>.\<close>

definition Router_PathPrefix :: "mux_Router \<Rightarrow> string \<Rightarrow> nat \<times> mux_Router" where
  "Router_PathPrefix rs tpl = (length rs, rs @ [(Route_PathPrefix tpl NewRoute, None)])"

text \<open>\<^verbatim>\<open>Handler\<close> called on the route a pointer refers to.\<close>

definition Route_Handler_at :: "nat \<Rightarrow> http_Handler \<Rightarrow> mux_Router \<Rightarrow> mux_Router" where
  "Route_Handler_at p handler rs = rs[p := Route_Handler handler (rs ! p)]"

section \<open>The coordinator\<close>

text \<open>
  A context is given by the instant at which its \<^verbatim>\<open>Done\<close> channel closes (\<open>None\<close>:
  never) and the error it reports from then on.
\<close>

record Context =
  doneAt :: "Time option"
  ctx_Err :: go_error

record http_Server =
  Addr :: string
  srv_Handler :: "http_Handler option"

text \<open>The struct \<^verbatim>\<open>Handler\<close> (ok.go, lines 45-53), its constructors (lines 56-75) and
  \<^verbatim>\<open>SetGracefulShutdownDuration\<close> (lines 79-81).\<close>

record Handler =
  ctx :: Context
  gracefulShutdownDuration :: Duration
  logger :: FieldLogger
  okHandler :: http_Handler
  router :: mux_Router
  server :: http_Server
  metricsListen :: string


definition NewHandlerWithContext :: "Context \<Rightarrow> FieldLogger \<Rightarrow> string \<Rightarrow> string \<Rightarrow> Handler" where
  "NewHandlerWithContext c lg listen metrics =
     \<lparr>ctx = c,
      gracefulShutdownDuration = 2 * Second,
      logger = lg,
      okHandler = NewOkHandler lg,
      router = NewRouter,
      server = \<lparr>Addr = listen, srv_Handler = None\<rparr>,
      metricsListen = metrics\<rparr>"


definition SetGracefulShutdownDuration :: "Handler \<Rightarrow> Duration \<Rightarrow> Handler" where
  "SetGracefulShutdownDuration h duration = h\<lparr>gracefulShutdownDuration := duration\<rparr>"

text \<open>The registration methods (ok.go, lines 85-116); each returns the route and the coordinator.\<close>

definition Handle :: "Handler \<Rightarrow> string \<Rightarrow> http_Handler \<Rightarrow> nat \<times> Handler" where
  "Handle h path handler =
     (case Router_Handle (router h) path (NewTimer (logger h) handler) of
        (p, rs) \<Rightarrow> (p, h\<lparr>router := rs\<rparr>))"

definition HandlePrefix :: "Handler \<Rightarrow> string \<Rightarrow> http_Handler \<Rightarrow> nat \<times> Handler" where
  "HandlePrefix h pfx handler =
     (case Router_PathPrefix (router h) pfx of
        (p, rs) \<Rightarrow> (p, h\<lparr>router := Route_Handler_at p (NewTimer (logger h) handler) rs\<rparr>))"

definition HandleFunc :: "Handler \<Rightarrow> string \<Rightarrow> (ResponseWriter \<Rightarrow> Request \<Rightarrow> app_result) \<Rightarrow> nat \<times> Handler" where
  "HandleFunc h path f = Handle h path (HandlerFunc f)"

definition HandleFuncPrefix :: "Handler \<Rightarrow> string \<Rightarrow> (ResponseWriter \<Rightarrow> Request \<Rightarrow> app_result) \<Rightarrow> nat \<times> Handler" where
  "HandleFuncPrefix h pfx f = HandlePrefix h pfx (HandlerFunc f)"

definition AddOkHandler :: "Handler \<Rightarrow> string \<Rightarrow> Handler" where
  "AddOkHandler h path = h\<lparr>router := snd (Router_Handle (router h) path (okHandler h))\<rparr>"

definition registerDefaultRoutes :: "Handler \<Rightarrow> Handler" where
  "registerDefaultRoutes h =
     (let h1 = h\<lparr>router := snd (Router_Handle (router h) ''/_healthz'' (okHandler h))\<rparr>;
          h2 = h1\<lparr>router := snd (Router_Handle (router h1) ''/_health'' (okHandler h1))\<rparr>
      in h2\<lparr>router := snd (Router_Handle (router h2) ''/up'' (okHandler h2))\<rparr>)"

text \<open>
  \<^verbatim>\<open>wrapHandlers\<close> (ok.go, lines 118-125): \<^verbatim>\<open>handlers.RecoveryHandler\<close> with the recovery logger
  and \<^verbatim>\<open>PrintRecoveryStack(true)\<close>, applied to the handler.
\<close>

definition wrapHandlers :: "Handler \<Rightarrow> FieldLogger \<Rightarrow> http_Handler \<Rightarrow> http_Handler" where
  "wrapHandlers h lg handler = recoveryHandler handler (Some lg) True"

subsection \<open>Serve\<close>

text \<open>
  A goroutine ends in one of three ways: it returns, it exits the process
  (\<^verbatim>\<open>logger.Fatalf\<close> prints and calls \<^verbatim>\<open>os.Exit(1)\<close>), or it blocks for ever.
\<close>

datatype 'a thread = Returns 'a | Exits 'a | Blocks 'a

fun returned :: "'a thread \<Rightarrow> bool" where
  "returned (Returns x) = True"
| "returned (Exits x) = False"
| "returned (Blocks x) = False"

fun exited :: "'a thread \<Rightarrow> bool" where
  "exited (Returns x) = False"
| "exited (Exits x) = True"
| "exited (Blocks x) = False"

text \<open>Receiving from \<^verbatim>\<open>ctx.Done()\<close>: the clock moves to the instant the context is done.\<close>

definition wait_Done :: "Context \<Rightarrow> world \<Rightarrow> world option" where
  "wait_Done c w = (case doneAt c of None \<Rightarrow> None | Some t \<Rightarrow> Some (w\<lparr>now := max (now w) t\<rparr>))"

text \<open>\<^verbatim>\<open>context.WithTimeout(context.Background(), d)\<close>, made at the instant \<open>now w\<close>.\<close>

definition WithTimeout :: "Duration \<Rightarrow> world \<Rightarrow> Context" where
  "WithTimeout d w = \<lparr>doneAt = Some (now w + d), ctx_Err = DeadlineExceeded\<rparr>"

text \<open>
  The connections of the primary server when shutdown begins: the instant at which the
  last request in flight is finished and every connection is idle (\<open>None\<close>: never), and
  the error closing the listeners gives.

  \<^verbatim>\<open>Server.Shutdown(ctx)\<close>, as net/http documents it: the listeners are closed, then it
  waits for the connections to become idle. With every connection idle it returns the
  listeners' error; if the context expires before, it returns the context's error. It
  looks at the connections first, so with nothing in flight it returns at once. (The
  library polls the connections; the polling interval is not modelled.)
\<close>

record server_conns =
  idle_at :: "Time option"
  close_err :: "go_error option"

definition Shutdown :: "server_conns \<Rightarrow> Context \<Rightarrow> world \<Rightarrow> (go_error option \<times> world) option" where
  "Shutdown cs c w =
     (case idle_at cs of
        Some t \<Rightarrow>
          if t \<le> now w then Some (close_err cs, w)
          else (case doneAt c of
                  None \<Rightarrow> Some (close_err cs, w\<lparr>now := t\<rparr>)
                | Some d \<Rightarrow>
                    if t < d then Some (close_err cs, w\<lparr>now := t\<rparr>)
                    else Some (Some (ctx_Err c), w\<lparr>now := max (now w) d\<rparr>))
      | None \<Rightarrow>
          (case doneAt c of
             None \<Rightarrow> None
           | Some d \<Rightarrow> Some (Some (ctx_Err c), w\<lparr>now := max (now w) d\<rparr>)))"



text \<open>
  The goroutine that calls \<^verbatim>\<open>Serve\<close> (ok.go, lines 128-165). \<open>Serve_setup\<close> is lines 129-130.
  The two goroutines above run beside it, and each of them can exit the process on its
  own. The deferred \<^verbatim>\<open>cancel()\<close> runs when the function returns, after the last receive.
\<close>

definition Serve_setup :: "Handler \<Rightarrow> Handler" where
  "Serve_setup h0 =
     (let h = registerDefaultRoutes h0
      in h\<lparr>server := (server h)\<lparr>srv_Handler := Some (wrapHandlers h (logger h) (Router (router h)))\<rparr>\<rparr>)"

definition Serve :: "Handler \<Rightarrow> server_conns \<Rightarrow> world \<Rightarrow> (Handler \<times> world) thread" where
  "Serve h0 cs w0 =
     (let h = Serve_setup h0;
          w1 = Infof (logger h) (''Listening on '' @ Addr (server h)) w0
      in case wait_Done (ctx h) w1 of
           None \<Rightarrow> Blocks (h, w1)
         | Some w2 \<Rightarrow>
             (let w3 = Info (logger h) ''Shutting down ...'' w2;
                  shutdownCtx = WithTimeout (gracefulShutdownDuration h) w3
              in case Shutdown cs shutdownCtx w3 of
                   None \<Rightarrow> Blocks (h, w3)
                 | Some (Some e, w4) \<Rightarrow>
                     Exits (h, Fatalf (logger h) (''failed to shutdown http server: '' @ Error e) w4)
                 | Some (None, w4) \<Rightarrow>
                     (case wait_Done shutdownCtx w4 of
                        None \<Rightarrow> Blocks (h, w4)
                      | Some w5 \<Rightarrow> Returns (h, w5))))"

section \<open>Values for the examples\<close>

text \<open>
  A world at instant 0 with an empty log and an empty histogram vector; a fresh response
  writer and one whose connection is broken; a request without a route in its context;
  a coordinator whose context is cancelled at instant 5.
\<close>

definition w_init :: world where
  "w_init = \<lparr>now = 0, logs = [], httpDuration = Map.empty\<rparr>"

definition rw_fresh :: ResponseWriter where
  "rw_fresh = \<lparr>rw_status = None, rw_body = [], rw_broken = None\<rparr>"

definition rw_gone :: ResponseWriter where
  "rw_gone = \<lparr>rw_status = None, rw_body = [], rw_broken = Some (OtherError ''write: broken pipe'')\<rparr>"

definition request :: "string \<Rightarrow> string \<Rightarrow> Request" where
  "request m p = \<lparr>Method = m, URL_Path = p, ctx_route = None\<rparr>"

definition h_example :: Handler where
  "h_example = NewHandlerWithContext \<lparr>doneAt = Some 5, ctx_Err = Canceled\<rparr> ''http'' '':8080'' '':9090''"

text \<open>Two handler functions: one writes a greeting in 7 ns, one panics after 7 ns.\<close>

definition hello :: "ResponseWriter \<Rightarrow> Request \<Rightarrow> app_result" where
  "hello rw r = \<lparr>app_rw = snd (Write ''hello'' rw), app_elapsed = 7, app_panic = None\<rparr>"

definition panicking :: "ResponseWriter \<Rightarrow> Request \<Rightarrow> app_result" where
  "panicking rw r = \<lparr>app_rw = rw, app_elapsed = 7, app_panic = Some ''boom''\<rparr>"

text \<open>The route \<^verbatim>\<open>Router.Handle\<close> builds for a template that starts with a slash.\<close>

definition path_route :: "string \<Rightarrow> Route" where
  "path_route p = \<lparr>route_err = None, regexp_path = Some \<lparr>template = p, regexp_typ = regexpTypePath\<rparr>\<rparr>"

definition request_x :: Request where
  "request_x = \<lparr>Method = ''GET'', URL_Path = ''/x'', ctx_route = Some (path_route ''/x'')\<rparr>"

definition h_app :: Handler where
  "h_app = snd (HandleFunc (snd (HandleFunc h_example ''/x'' hello)) ''/boom'' panicking)"

text \<open>The world an outcome ends in.\<close>

fun world_of :: "outcome \<Rightarrow> world" where
  "world_of (Return rw w) = w"
| "world_of (Panic p rw w) = w"

text \<open>
  The world in which \<^verbatim>\<open>Serve\<close> calls \<^verbatim>\<open>Shutdown\<close>, when the coordinator's context is
  done at \<open>tc\<close>: both info lines are printed and the clock is past \<open>tc\<close>.
\<close>

definition shutdown_world :: "Handler \<Rightarrow> Time \<Rightarrow> world \<Rightarrow> world" where
  "shutdown_world h tc w =
     w\<lparr>now := max (now w) tc,
       logs := logs w @ [(logger h, InfoLevel, ''Listening on '' @ Addr (server h)),
                         (logger h, InfoLevel, ''Shutting down ...'')]\<rparr>"

section \<open>Auxiliary facts\<close>

lemma now_WithLabelValues [simp]: "now (WithLabelValues l w) = now w"
  by (simp add: WithLabelValues_def split: option.splits)

lemma logs_WithLabelValues [simp]: "logs (WithLabelValues l w) = logs w"
  by (simp add: WithLabelValues_def split: option.splits)

lemma observations_WithLabelValues [simp]:
  "observations (WithLabelValues l w) k = observations w k"
  by (simp add: WithLabelValues_def observations_def split: option.splits)

lemma httpDuration_WithLabelValues:
  "httpDuration (WithLabelValues l w) k =
     (if k = l \<and> httpDuration w l = None then Some [] else httpDuration w k)"
  by (simp add: WithLabelValues_def split: option.splits)

text \<open>
  A matched route without a path template (or with a stored error): the timer takes the
  empty label and runs the nested handler.
\<close>

lemma Timer_ServeHTTP_route_without_template:
  assumes "ctx_route r = Some rt" and "regexp_path rt = None \<or> route_err rt \<noteq> None"
  shows "ServeHTTP (Timer handler lg) rw r w =
     (case ServeHTTP handler rw r (WithLabelValues [] w) of
        Panic p rw' w' \<Rightarrow> Panic p rw' w'
      | Return rw' w' \<Rightarrow> Return rw' (ObserveDuration \<lparr>observer = [], begin_at = now w\<rparr> w'))"
proof -
  from assms have "\<exists>e. GetPathTemplate (CurrentRoute r) = Inr ([], Some e)"
    by (cases "route_err rt") (auto simp: CurrentRoute_def GetPathTemplate_def)
  then show ?thesis
    by (auto simp: prometheus_NewTimer_def split: outcome.splits)
qed

lemma Timer_ServeHTTP_without_route:
  "ServeHTTP (Timer handler lg) rw (r\<lparr>ctx_route := None\<rparr>) w = Panic NilDereference rw w"
  by (simp add: CurrentRoute_def GetPathTemplate_def)

lemma Serve_setup_fields [simp]:
  "ctx (Serve_setup h) = ctx h"
  "gracefulShutdownDuration (Serve_setup h) = gracefulShutdownDuration h"
  "logger (Serve_setup h) = logger h"
  "okHandler (Serve_setup h) = okHandler h"
  "Addr (server (Serve_setup h)) = Addr (server h)"
  "metricsListen (Serve_setup h) = metricsListen h"
  by (simp_all add: Serve_setup_def registerDefaultRoutes_def Let_def)

lemma SetGracefulShutdownDuration_fields [simp]:
  "gracefulShutdownDuration (SetGracefulShutdownDuration h d) = d"
  "ctx (SetGracefulShutdownDuration h d) = ctx h"
  "logger (SetGracefulShutdownDuration h d) = logger h"
  "server (SetGracefulShutdownDuration h d) = server h"
  "router (SetGracefulShutdownDuration h d) = router h"
  by (simp_all add: SetGracefulShutdownDuration_def)

lemma now_shutdown_world [simp]: "now (shutdown_world h tc w) = max (now w) tc"
  by (simp add: shutdown_world_def)

text \<open>\<^verbatim>\<open>Serve\<close> from the cancellation on: the call of \<^verbatim>\<open>Shutdown\<close> decides.\<close>

lemma Serve_after_signal:
  assumes "doneAt (ctx h) = Some tc"
  shows "Serve h cs w =
     (case Shutdown cs (WithTimeout (gracefulShutdownDuration h) (shutdown_world h tc w))
             (shutdown_world h tc w) of
        None \<Rightarrow> Blocks (Serve_setup h, shutdown_world h tc w)
      | Some (Some e, w4) \<Rightarrow>
          Exits (Serve_setup h,
                 Fatalf (logger h) (''failed to shutdown http server: '' @ Error e) w4)
      | Some (None, w4) \<Rightarrow>
          (case wait_Done (WithTimeout (gracefulShutdownDuration h) (shutdown_world h tc w)) w4 of
             None \<Rightarrow> Blocks (Serve_setup h, w4)
           | Some w5 \<Rightarrow> Returns (Serve_setup h, w5)))"
proof -
  have "wait_Done (ctx (Serve_setup h))
          (Infof (logger (Serve_setup h)) (''Listening on '' @ Addr (server (Serve_setup h))) w)
        = Some (w\<lparr>now := max (now w) tc,
                   logs := logs w @ [(logger h, InfoLevel, ''Listening on '' @ Addr (server h))]\<rparr>)"
    using assms by (simp add: wait_Done_def Infof_def log_entry_def)
  then show ?thesis
    unfolding Serve_def Let_def
    by (auto simp: Info_def Infof_def log_entry_def shutdown_world_def split: option.splits prod.splits)
qed

lemma Shutdown_expired:
  assumes "idle_at cs = Some t" and "now w < t" and "now w + d \<le> t"
  shows "Shutdown cs (WithTimeout d w) w =
           Some (Some DeadlineExceeded, w\<lparr>now := max (now w) (now w + d)\<rparr>)"
  using assms by (simp add: Shutdown_def WithTimeout_def)

lemma Shutdown_never_idle:
  assumes "idle_at cs = None"
  shows "Shutdown cs (WithTimeout d w) w =
           Some (Some DeadlineExceeded, w\<lparr>now := max (now w) (now w + d)\<rparr>)"
  using assms by (simp add: Shutdown_def WithTimeout_def)


lemma Router_Match_matches:
  "Router_Match rs r = Some (rt, x) \<Longrightarrow> Route_Match rt r"
  by (induction rs) (auto split: if_splits)

lemma srv_Handler_Serve_setup:
  "srv_Handler (server (Serve_setup h)) =
     Some (recoveryHandler (Router (router (Serve_setup h))) (Some (logger h)) True)"
  by (simp add: Serve_setup_def Let_def wrapHandlers_def registerDefaultRoutes_def)

lemma router_Serve_setup: "router (Serve_setup h) = router (registerDefaultRoutes h)"
  by (simp add: Serve_setup_def Let_def)

lemma GetPathTemplate_matched:
  "route_err rt = None \<Longrightarrow>
   GetPathTemplate (CurrentRoute (requestWithRoute r rt)) =
     Inr (case regexp_path rt of
            None \<Rightarrow> ([], Some (OtherError ''mux: route doesn't have a path''))
          | Some rx \<Rightarrow> (template rx, None))"
  by (simp add: GetPathTemplate_def CurrentRoute_def requestWithRoute_def split: option.splits)

lemma route_err_path_route [simp]: "route_err (path_route p) = None"
  by (simp add: path_route_def)

lemma Route_Path_slash:
  "Route_Path (CHR ''/'' # p) NewRoute = path_route (CHR ''/'' # p)"
  by (simp add: Route_Path_def addRegexpMatcher_def NewRoute_def path_route_def)

lemma router_registerDefaultRoutes:
  "router (registerDefaultRoutes h) =
     router h @ [(path_route ''/_healthz'', Some (okHandler h)),
                 (path_route ''/_health'', Some (okHandler h)),
                 (path_route ''/up'', Some (okHandler h))]"
  by (simp add: registerDefaultRoutes_def Let_def Router_Handle_def Route_Handler_def
        Route_Path_slash)


lemma router_h_app:
  "router (Serve_setup h_app) =
     [(path_route ''/x'', Some (Timer (HandlerFunc hello) ''http'')),
      (path_route ''/boom'', Some (Timer (HandlerFunc panicking) ''http'')),
      (path_route ''/_healthz'', Some (OkHandler ''http'')),
      (path_route ''/_health'', Some (OkHandler ''http'')),
      (path_route ''/up'', Some (OkHandler ''http''))]"
  by (simp add: router_Serve_setup router_registerDefaultRoutes)
     (simp add: h_app_def HandleFunc_def Handle_def Router_Handle_def Route_Handler_def Route_Path_slash
        NewTimer_def h_example_def NewHandlerWithContext_def NewRouter_def NewOkHandler_def)

text \<open>
  A handler that ends in a panic has recorded no observation, whatever it is made of:
  by induction over \<^verbatim>\<open>ServeHTTP\<close>.
\<close>

lemma ServeHTTP_panic_observations:
  "ServeHTTP g rw r w = Panic p rw' w' \<Longrightarrow> observations w' l = observations w l"
proof (induction g rw r w arbitrary: p rw' w' rule: ServeHTTP.induct)
  case (1 f rw r w)
  then show ?case
    by (auto simp: Let_def observations_def split: option.splits)
next
  case (2 lg rw r w)
  then show ?case
    by (auto split: prod.splits option.splits)
next
  case (3 handler lg rw r w)
  show ?case
  proof (cases "GetPathTemplate (CurrentRoute r)")
    case (Inl a)
    with "3.prems" show ?thesis by simp
  next
    case (Inr b)
    obtain path e where b: "b = (path, e)" by (cases b)
    from "3.prems" Inr b
    have "ServeHTTP handler rw r (WithLabelValues path w) = Panic p rw' w'"
      by (auto split: outcome.splits)
    from "3.IH" [OF Inr b [symmetric] this] show ?thesis by simp
  qed
next
  case (4 routes rw r w)
  from "4.prems" show ?case
    by (auto split: if_splits option.splits prod.splits dest: "4.IH" [rotated -1])
next
  case (5 handler lg printStack rw r w)
  then show ?case
    by (auto split: outcome.splits)
qed

text \<open>A label of the histogram vector, once there, stays.\<close>

lemma ServeHTTP_keeps_labels:
  "httpDuration w l \<noteq> None \<Longrightarrow> httpDuration (world_of (ServeHTTP g rw r w)) l \<noteq> None"
proof (induction g rw r w rule: ServeHTTP.induct)
  case (1 f rw r w)
  then show ?case
    by (auto simp: Let_def split: option.splits)
next
  case (2 lg rw r w)
  then show ?case
    by (auto simp: Debugf_def log_entry_def split: prod.splits option.splits)
next
  case (3 handler lg rw r w)
  show ?case
  proof (cases "GetPathTemplate (CurrentRoute r)")
    case (Inl a)
    with "3.prems" show ?thesis by simp
  next
    case (Inr b)
    obtain path e where b: "b = (path, e)" by (cases b)
    from "3.prems" have "httpDuration (WithLabelValues path w) l \<noteq> None"
      by (simp add: httpDuration_WithLabelValues)
    from "3.IH" [OF Inr b [symmetric] this] Inr b show ?thesis
      by (auto simp: ObserveDuration_def split: outcome.splits)
  qed
next
  case (4 routes rw r w)
  then show ?case
    by (auto split: if_splits option.splits prod.splits)
next
  case (5 handler lg printStack rw r w)
  then show ?case
    by (auto simp: recovery_log_def Println_def log_entry_def Let_def split: outcome.splits)
qed

section \<open>Properties\<close>

subsection \<open>The latency recorder and a request without a route\<close>

text \<open>
  Claim C1. For every request the latency recorder handles, an unresolvable route
  template gives the empty label and no panic; in particular a request with no matched
  route is served without fault.

  The code does not do this for a request whose context holds no route:
  \<^verbatim>\<open>mux.CurrentRoute\<close> returns nil, and \<^verbatim>\<open>route.GetPathTemplate()\<close> on the nil route is a
  nil pointer dereference, before the nested handler is called. (For a matched route
  without a template the label is empty, see \<open>Timer_ServeHTTP_route_without_template\<close>.)
  The theorem runs \<^verbatim>\<open>Timer.ServeHTTP\<close> on such a request.
\<close>

theorem Timer_ServeHTTP_nil_route:
  "ServeHTTP (NewTimer ''http'' (NewOkHandler ''http'')) rw_fresh (request ''GET'' ''/up'') w_init
     = Panic NilDereference rw_fresh w_init"
  by (simp add: NewTimer_def NewOkHandler_def CurrentRoute_def GetPathTemplate_def request_def)

subsection \<open>Errors of the two listeners\<close>




subsection \<open>The grace deadline\<close>

text \<open>
  Claim C3, as amended. Once the grace deadline expires with requests still in flight,
  the shutdown call returns the context's deadline error, and \<^verbatim>\<open>Serve\<close> treats it like
  every error of the shutdown call: it prints the fatal line and the process exits, at
  the deadline; \<^verbatim>\<open>Serve\<close> does not return. \<^verbatim>\<open>Serve\<close> returns only when the shutdown call
  returned no error.
\<close>

theorem Serve_deadline_expired:
  assumes "doneAt (ctx h) = Some tc"
  shows "(idle_at cs = None \<or>
          (\<exists>t. idle_at cs = Some t \<and> max (now w) tc < t \<and>
                max (now w) tc + gracefulShutdownDuration h \<le> t) \<longrightarrow>
          Serve h cs w =
            Exits (Serve_setup h,
                   w\<lparr>now := max (max (now w) tc) (max (now w) tc + gracefulShutdownDuration h),
                     logs := logs w @
                       [(logger h, InfoLevel, ''Listening on '' @ Addr (server h)),
                        (logger h, InfoLevel, ''Shutting down ...''),
                        (logger h, FatalLevel,
                         ''failed to shutdown http server: context deadline exceeded'')]\<rparr>)) \<and>
         (\<forall>e w4. Shutdown cs (WithTimeout (gracefulShutdownDuration h) (shutdown_world h tc w))
                    (shutdown_world h tc w) = Some (Some e, w4) \<longrightarrow>
                 Serve h cs w =
                   Exits (Serve_setup h,
                          Fatalf (logger h) (''failed to shutdown http server: '' @ Error e) w4)) \<and>
         (returned (Serve h cs w) \<longrightarrow>
            (\<exists>w4. Shutdown cs (WithTimeout (gracefulShutdownDuration h) (shutdown_world h tc w))
                     (shutdown_world h tc w) = Some (None, w4)))"
proof -
  let ?w = "shutdown_world h tc w"
  let ?c = "WithTimeout (gracefulShutdownDuration h) ?w"
  have expired: "Serve h cs w =
            Exits (Serve_setup h,
                   w\<lparr>now := max (max (now w) tc) (max (now w) tc + gracefulShutdownDuration h),
                     logs := logs w @
                       [(logger h, InfoLevel, ''Listening on '' @ Addr (server h)),
                        (logger h, InfoLevel, ''Shutting down ...''),
                        (logger h, FatalLevel,
                         ''failed to shutdown http server: context deadline exceeded'')]\<rparr>)"
    if busy: "idle_at cs = None \<or>
          (\<exists>t. idle_at cs = Some t \<and> max (now w) tc < t \<and>
                max (now w) tc + gracefulShutdownDuration h \<le> t)"
  proof -
    have "Shutdown cs ?c ?w =
            Some (Some DeadlineExceeded, ?w\<lparr>now := max (now ?w) (now ?w + gracefulShutdownDuration h)\<rparr>)"
    proof (cases "idle_at cs")
      case None
      then show ?thesis by (rule Shutdown_never_idle)
    next
      case (Some t)
      with busy have "now ?w < t" and "now ?w + gracefulShutdownDuration h \<le> t"
        by simp_all
      with Some show ?thesis by (rule Shutdown_expired)
    qed
    then show ?thesis
      by (simp add: Serve_after_signal [OF assms] Fatalf_def log_entry_def shutdown_world_def)
  qed
  have any_error: "Serve h cs w =
      Exits (Serve_setup h, Fatalf (logger h) (''failed to shutdown http server: '' @ Error e) w4)"
    if "Shutdown cs ?c ?w = Some (Some e, w4)" for e w4
    using that by (simp add: Serve_after_signal [OF assms])
  have only_clean: "\<exists>w4. Shutdown cs ?c ?w = Some (None, w4)"
    if "returned (Serve h cs w)"
    using that
    by (auto simp: Serve_after_signal [OF assms] split: option.splits prod.splits)
  from expired any_error only_clean show ?thesis
    by blast
qed

theorem Serve_deadline_expired_witness:
  "doneAt (ctx h_example) = Some 5 \<and>
   idle_at \<lparr>idle_at = Some 3000000000, close_err = None\<rparr> = Some 3000000000 \<and>
   Serve h_example \<lparr>idle_at = Some 3000000000, close_err = None\<rparr> w_init =
     Exits (Serve_setup h_example,
            \<lparr>now = 2000000005,
             logs = [(''http'', InfoLevel, ''Listening on :8080''),
                     (''http'', InfoLevel, ''Shutting down ...''),
                     (''http'', FatalLevel, ''failed to shutdown http server: context deadline exceeded'')],
             httpDuration = Map.empty\<rparr>)"
proof -
  have d: "doneAt (ctx h_example) = Some 5"
    by (simp add: h_example_def NewHandlerWithContext_def)
  from Serve_deadline_expired [OF d, of "\<lparr>idle_at = Some 3000000000, close_err = None\<rparr>" w_init]
  show ?thesis
    by (simp add: h_example_def NewHandlerWithContext_def w_init_def Second_def)
qed

text \<open>
  The claim as stated fails: with the default grace duration of 2 s, cancellation at
  instant 5 and a request that is in flight until instant 3 s, \<^verbatim>\<open>Serve\<close> does not return;
  the process exits.
\<close>

theorem Serve_deadline_expired_does_not_return:
  "\<not> returned (Serve h_example \<lparr>idle_at = Some 3000000000, close_err = None\<rparr> w_init) \<and>
   exited (Serve h_example \<lparr>idle_at = Some 3000000000, close_err = None\<rparr> w_init)"
proof -
  have "doneAt (ctx h_example) = Some 5"
    by (simp add: h_example_def NewHandlerWithContext_def)
  then show ?thesis
    by (simp add: Serve_after_signal h_example_def NewHandlerWithContext_def
          w_init_def Second_def Shutdown_def WithTimeout_def shutdown_world_def)
qed

text \<open>
  Claim C4. After the cancellation, \<^verbatim>\<open>Serve\<close> never returns before the whole graceful
  shutdown duration has passed, also when the server is idle at once: the last receive
  is on the timeout context, which is cancelled only by the deferred call.
  Whenever \<^verbatim>\<open>Serve\<close> returns, the context was cancelled at some instant \<open>tc\<close>, and the
  clock is at least the duration past \<open>tc\<close> (and past the instant the cancellation was
  seen).
\<close>

theorem Serve_returns_after_full_duration:
  assumes "Serve h cs w = Returns (h', w')"
  shows "\<exists>tc. doneAt (ctx h) = Some tc \<and>
           max (now w) tc + gracefulShutdownDuration h \<le> now w' \<and>
           tc + gracefulShutdownDuration h \<le> now w'"
proof (cases "doneAt (ctx h)")
  case None
  with assms show ?thesis
    by (simp add: Serve_def Let_def wait_Done_def)
next
  case (Some tc)
  let ?w = "shutdown_world h tc w"
  let ?c = "WithTimeout (gracefulShutdownDuration h) ?w"
  from assms obtain w4 where w4: "wait_Done ?c w4 = Some w'"
    by (auto simp: Serve_after_signal [OF Some] split: option.splits prod.splits)
  then have "now ?w + gracefulShutdownDuration h \<le> now w'"
    by (auto simp: wait_Done_def WithTimeout_def)
  with Some show ?thesis by auto
qed

text \<open>With nothing in flight, \<^verbatim>\<open>Serve\<close> does return, 2 s after the cancellation at 5.\<close>

theorem Serve_returns_after_full_duration_witness:
  "\<exists>h' w'. Serve h_example \<lparr>idle_at = Some 0, close_err = None\<rparr> w_init = Returns (h', w') \<and>
     doneAt (ctx h_example) = Some 5 \<and> gracefulShutdownDuration h_example = 2000000000 \<and>
     2000000005 \<le> now w'"
proof -
  have d: "doneAt (ctx h_example) = Some 5" "gracefulShutdownDuration h_example = 2000000000"
    by (simp_all add: h_example_def NewHandlerWithContext_def Second_def)
  have "returned (Serve h_example \<lparr>idle_at = Some 0, close_err = None\<rparr> w_init)"
    by (simp add: Serve_after_signal [OF d(1)] Shutdown_def w_init_def wait_Done_def WithTimeout_def)
  then obtain h' w' where r: "Serve h_example \<lparr>idle_at = Some 0, close_err = None\<rparr> w_init = Returns (h', w')"
    by (cases "Serve h_example \<lparr>idle_at = Some 0, close_err = None\<rparr> w_init") auto
  from Serve_returns_after_full_duration [OF r] d r show ?thesis
    by auto
qed



subsection \<open>The health responder\<close>

text \<open>
  Claim C6. For every request the health responder writes the body \<^verbatim>\<open>ok\<close> with a
  success status; when the write fails the error is logged at debug level only and is
  not passed on: the handler returns normally in every case.
  \<^verbatim>\<open>OkHandler.ServeHTTP\<close> always returns. On a working connection the body grows by
  \<^verbatim>\<open>ok\<close>, nothing is logged, and a header not yet written is written with status 200. On
  a broken connection the response writer is as before and the one new log line is at
  debug level.
\<close>

theorem OkHandler_ServeHTTP_returns:
  "\<exists>rw' w'. ServeHTTP (OkHandler lg) rw r w = Return rw' w' \<and>
     (rw_broken rw = None \<longrightarrow>
        rw_body rw' = rw_body rw @ ''ok'' \<and> w' = w \<and>
        (rw_status rw = None \<longrightarrow> rw_status rw' = Some StatusOK)) \<and>
     (\<forall>e. rw_broken rw = Some e \<longrightarrow>
        rw' = rw \<and>
        w' = w\<lparr>logs := logs w @ [(lg, DebugLevel, ''failed to write ok response: '' @ Error e)]\<rparr>)"
  by (cases "rw_broken rw")
     (simp_all add: Fprintf_def Write_def WriteHeader_def StatusOK_def Debugf_def log_entry_def)

theorem OkHandler_ServeHTTP_returns_witness:
  "(\<exists>rw' w'. ServeHTTP (OkHandler ''http'') rw_fresh (request ''GET'' ''/up'') w_init = Return rw' w' \<and>
      rw_body rw' = ''ok'' \<and> rw_status rw' = Some 200 \<and> w' = w_init)
   \<and> (\<exists>rw' w'. ServeHTTP (OkHandler ''http'') rw_gone (request ''GET'' ''/up'') w_init = Return rw' w' \<and>
      rw' = rw_gone \<and>
      logs w' = [(''http'', DebugLevel, ''failed to write ok response: write: broken pipe'')])"
  using OkHandler_ServeHTTP_returns [of "''http''" rw_fresh "request ''GET'' ''/up''" w_init]
        OkHandler_ServeHTTP_returns [of "''http''" rw_gone "request ''GET'' ''/up''" w_init]
  by (auto simp: rw_fresh_def rw_gone_def w_init_def StatusOK_def)

subsection \<open>Registration\<close>

text \<open>
  Claim C7. \<^verbatim>\<open>Handle\<close>, \<^verbatim>\<open>HandlePrefix\<close>, \<^verbatim>\<open>HandleFunc\<close> and \<^verbatim>\<open>HandleFuncPrefix\<close> hand the
  handler to the router wrapped in the latency recorder and return the router's route;
  \<^verbatim>\<open>AddOkHandler\<close> registers the coordinator's one health responder, not wrapped.
  The route returned is the one the router made, the router gains exactly that route, and
  the handler stored in it (the router stores none in a route with an error) is
  \<open>Timer g (logger h)\<close> for the registration methods and \<open>okHandler h\<close> itself for
  \<^verbatim>\<open>AddOkHandler\<close>; \<open>okHandler\<close> is the \<open>OkHandler\<close> made by the constructor.
\<close>

theorem registration_wraps_with_Timer:
  "(case Handle h p g of (rt, h') \<Rightarrow>
      rt = fst (Router_Handle (router h) p (NewTimer (logger h) g)) \<and>
      router h' = snd (Router_Handle (router h) p (NewTimer (logger h) g)) \<and>
      rt = length (router h) \<and>
      router h' = router h @
        [(Route_Path p NewRoute,
          if route_err (Route_Path p NewRoute) = None then Some (Timer g (logger h)) else None)]) \<and>
   (case HandlePrefix h p g of (rt, h') \<Rightarrow>
      rt = fst (Router_PathPrefix (router h) p) \<and>
      router h' = Route_Handler_at rt (NewTimer (logger h) g) (snd (Router_PathPrefix (router h) p)) \<and>
      rt = length (router h) \<and>
      router h' = router h @
        [(Route_PathPrefix p NewRoute,
          if route_err (Route_PathPrefix p NewRoute) = None then Some (Timer g (logger h)) else None)]) \<and>
   HandleFunc h p f = Handle h p (HandlerFunc f) \<and>
   HandleFuncPrefix h p f = HandlePrefix h p (HandlerFunc f) \<and>
   router (AddOkHandler h p) = router h @
        [(Route_Path p NewRoute,
          if route_err (Route_Path p NewRoute) = None then Some (okHandler h) else None)] \<and>
   okHandler (AddOkHandler h p) = okHandler h \<and>
   okHandler (NewHandlerWithContext c lg listen metrics) = OkHandler lg"
  by (simp add: Handle_def HandlePrefix_def HandleFunc_def HandleFuncPrefix_def AddOkHandler_def
        Router_Handle_def Router_PathPrefix_def Route_Handler_at_def Route_Handler_def NewTimer_def
        NewHandlerWithContext_def NewOkHandler_def)

theorem registration_wraps_with_Timer_witness:
  "Handle h_example ''/x'' (HandlerFunc hello) =
     (0, h_example\<lparr>router := [(path_route ''/x'', Some (Timer (HandlerFunc hello) ''http''))]\<rparr>) \<and>
   router (AddOkHandler h_example ''/ping'') = [(path_route ''/ping'', Some (OkHandler ''http''))]"
proof -
  have "router h_example = []" "logger h_example = ''http''" "okHandler h_example = OkHandler ''http''"
    by (simp_all add: h_example_def NewHandlerWithContext_def NewRouter_def NewOkHandler_def)
  with registration_wraps_with_Timer [of h_example "''/x''" "HandlerFunc hello" hello,
         where c = "\<lparr>doneAt = Some 5, ctx_Err = Canceled\<rparr>"]
       registration_wraps_with_Timer [of h_example "''/ping''" "HandlerFunc hello" hello,
         where c = "\<lparr>doneAt = Some 5, ctx_Err = Canceled\<rparr>"]
  show ?thesis
    by (auto simp: Route_Path_slash Handle_def split: prod.splits)
qed

subsection \<open>The order of the wrappers\<close>

text \<open>
  Claim C8. For every request served after \<^verbatim>\<open>Serve\<close> has started, panic recovery runs
  outside the latency recorder, which runs outside the registered handler, so the timing
  and the containment both span the whole handler.
  The server's handler after the setup of \<^verbatim>\<open>Serve\<close> is the recovery handler around the
  router. For a request the router gives to a route registered with the recorder
  (\<open>Timer g lg\<close>, see C7), serving is: the label is taken from the route, the handler \<open>g\<close>
  runs; when it returns, the time from before \<open>g\<close> to after \<open>g\<close> is observed under the
  label; when it panics, the recovery handler answers with status 500 and prints the panic,
  and serving returns normally.
\<close>

theorem recovery_outside_timer_outside_handler:
  assumes "cleanPath (URL_Path r) = URL_Path r"
    and "Router_Match (router (Serve_setup h)) r = Some (rt, Some (Timer g lg))"
  shows "srv_Handler (server (Serve_setup h)) =
           Some (recoveryHandler (Router (router (Serve_setup h))) (Some (logger h)) True) \<and>
         ServeHTTP (recoveryHandler (Router (router (Serve_setup h))) (Some (logger h)) True) rw r w =
           (let label = (case regexp_path rt of None \<Rightarrow> [] | Some rx \<Rightarrow> template rx) in
            case ServeHTTP g rw (requestWithRoute r rt) (WithLabelValues label w) of
              Return rw' w' \<Rightarrow>
                Return rw' (ObserveDuration \<lparr>observer = label, begin_at = now w\<rparr> w')
            | Panic p rw' w' \<Rightarrow>
                Return (WriteHeader StatusInternalServerError rw')
                       (recovery_log (Some (logger h)) True p w'))"
proof -
  from assms(2) have "Route_Match rt r" by (rule Router_Match_matches)
  then have e: "route_err rt = None" by (simp add: Route_Match_def)
  show ?thesis
    using assms
    by (auto simp: srv_Handler_Serve_setup GetPathTemplate_matched [OF e] Let_def
          prometheus_NewTimer_def split: option.splits outcome.splits)
qed

text \<open>
  A coordinator with the handlers \<open>hello\<close> at \<^verbatim>\<open>/x\<close> and \<open>panicking\<close> at \<^verbatim>\<open>/boom\<close>: the
  7 ns of \<open>hello\<close> are observed under \<^verbatim>\<open>/x\<close>; the panic is answered with 500.
\<close>

theorem recovery_outside_timer_outside_handler_witness:
  "ServeHTTP (recoveryHandler (Router (router (Serve_setup h_app))) (Some (logger h_app)) True)
     rw_fresh (request ''GET'' ''/x'') w_init =
     Return \<lparr>rw_status = Some 200, rw_body = ''hello'', rw_broken = None\<rparr>
            \<lparr>now = 7, logs = [], httpDuration = [''/x'' \<mapsto> [7]]\<rparr> \<and>
   ServeHTTP (recoveryHandler (Router (router (Serve_setup h_app))) (Some (logger h_app)) True)
     rw_fresh (request ''GET'' ''/boom'') w_init =
     Return \<lparr>rw_status = Some 500, rw_body = [], rw_broken = None\<rparr>
            \<lparr>now = 7,
             logs = [(''http'', InfoLevel, ''boom''), (''http'', InfoLevel, ''debug.Stack()'')],
             httpDuration = [''/boom'' \<mapsto> []]\<rparr>"
proof -
  have l: "logger h_app = ''http''"
    by (simp add: h_app_def HandleFunc_def Handle_def Router_Handle_def h_example_def
          NewHandlerWithContext_def)
  have c: "cleanPath (URL_Path (request ''GET'' ''/x'')) = URL_Path (request ''GET'' ''/x'')"
          "cleanPath (URL_Path (request ''GET'' ''/boom'')) = URL_Path (request ''GET'' ''/boom'')"
    by (simp_all add: request_def cleanPath_def Clean_def)
  have m1: "Router_Match (router (Serve_setup h_app)) (request ''GET'' ''/x'') =
              Some (path_route ''/x'', Some (Timer (HandlerFunc hello) ''http''))"
    by (simp add: router_h_app Route_Match_def routeRegexp_Match_def path_route_def request_def)
  have m2: "Router_Match (router (Serve_setup h_app)) (request ''GET'' ''/boom'') =
              Some (path_route ''/boom'', Some (Timer (HandlerFunc panicking) ''http''))"
    by (simp add: router_h_app Route_Match_def routeRegexp_Match_def path_route_def request_def)
  from recovery_outside_timer_outside_handler [OF c(1) m1, of rw_fresh w_init]
       recovery_outside_timer_outside_handler [OF c(2) m2, of rw_fresh w_init]
  show ?thesis
    by (simp del: ServeHTTP.simps(4) ServeHTTP.simps(5)
          add: l path_route_def hello_def panicking_def rw_fresh_def w_init_def
          WithLabelValues_def ObserveDuration_def observations_def Write_def WriteHeader_def
          StatusInternalServerError_def recovery_log_def Println_def log_entry_def Let_def)
qed

subsection \<open>The default health paths\<close>



subsection \<open>A panic under the latency recorder\<close>

text \<open>
  Claim C10, as amended. If the handler nested in the latency recorder panics, the
  panic passes the recorder and reaches the recovery handler, and no observation is
  recorded for the request: under every label the observations are those from before.
  The histogram vector is otherwise as the nested handler left it, except that the series
  of the request's label exists afterwards (without observations): the recorder asks for
  it with \<^verbatim>\<open>WithLabelValues\<close> before the nested handler runs.
\<close>

theorem Timer_panic_records_no_observation:
  assumes "GetPathTemplate (CurrentRoute r) = Inr (path, e)"
    and "ServeHTTP g rw r (WithLabelValues path w) = Panic p rw' w'"
  shows "ServeHTTP (Timer g lg) rw r w = Panic p rw' w' \<and>
         (\<forall>l. observations w' l = observations w l) \<and>
         httpDuration w' path \<noteq> None \<and>
         ServeHTTP (recoveryHandler (Timer g lg) rl ps) rw r w =
           Return (WriteHeader StatusInternalServerError rw') (recovery_log rl ps p w')"
proof -
  have 1: "ServeHTTP (Timer g lg) rw r w = Panic p rw' w'"
    using assms by simp
  have 2: "observations w' l = observations w l" for l
    using ServeHTTP_panic_observations [OF assms(2), of l] by simp
  have "httpDuration (WithLabelValues path w) path \<noteq> None"
    by (simp add: httpDuration_WithLabelValues)
  from ServeHTTP_keeps_labels [OF this, of g rw r] assms(2)
  have 3: "httpDuration w' path \<noteq> None" by simp
  from 1 2 3 show ?thesis by simp
qed

theorem Timer_panic_records_no_observation_witness:
  "GetPathTemplate (CurrentRoute request_x) = Inr (''/x'', None) \<and>
   ServeHTTP (HandlerFunc panicking) rw_fresh request_x (WithLabelValues ''/x'' w_init) =
     Panic (PanicValue ''boom'') rw_fresh ((WithLabelValues ''/x'' w_init)\<lparr>now := 7\<rparr>) \<and>
   ServeHTTP (Timer (HandlerFunc panicking) ''http'') rw_fresh request_x w_init =
     Panic (PanicValue ''boom'') rw_fresh ((WithLabelValues ''/x'' w_init)\<lparr>now := 7\<rparr>) \<and>
   observations ((WithLabelValues ''/x'' w_init)\<lparr>now := 7\<rparr>) ''/x'' = []"
proof -
  have a: "GetPathTemplate (CurrentRoute request_x) = Inr (''/x'', None)"
    by (simp add: request_x_def path_route_def CurrentRoute_def GetPathTemplate_def)
  have b: "ServeHTTP (HandlerFunc panicking) rw_fresh request_x (WithLabelValues ''/x'' w_init) =
     Panic (PanicValue ''boom'') rw_fresh ((WithLabelValues ''/x'' w_init)\<lparr>now := 7\<rparr>)"
    by (simp add: panicking_def w_init_def WithLabelValues_def)
  have "observations w_init ''/x'' = []"
    by (simp add: observations_def w_init_def)
  with Timer_panic_records_no_observation [OF a b, of "''http''" None False] a b show ?thesis
    by simp
qed

text \<open>
  The claim as stated fails where the label is new: before the request the histogram
  vector has no series for \<^verbatim>\<open>/x\<close>, after the panic it has one.
\<close>

theorem Timer_panic_changes_histogram:
  "httpDuration (world_of (ServeHTTP (Timer (HandlerFunc panicking) ''http'') rw_fresh request_x w_init)) ''/x''
     \<noteq> httpDuration w_init ''/x'' \<and>
   httpDuration w_init ''/x'' = None \<and>
   ServeHTTP (Timer (HandlerFunc panicking) ''http'') rw_fresh request_x w_init =
     Panic (PanicValue ''boom'') rw_fresh
       (w_init\<lparr>now := 7, httpDuration := (httpDuration w_init)(''/x'' \<mapsto> [])\<rparr>)"
  by (simp add: w_init_def request_x_def path_route_def CurrentRoute_def GetPathTemplate_def
        WithLabelValues_def panicking_def)

end
